theory Spec2Isabelle
  imports Complex_Main
begin

section \<open>The Merps client: data\<close>

text \<open>
  The development follows \<^verbatim>\<open>src/client.ts\<close> (class \<^verbatim>\<open>MerpsClient\<close>).
  Strings are lists of characters; \<^verbatim>\<open>startsWith\<close> and \<^verbatim>\<open>slice\<close>
  work on the positions of such a list as they do on the code units of a JavaScript string.
\<close>

type_synonym pubkey = string
type_synonym txid = string
type_synonym raw = string

text \<open>A thrown value: \<^verbatim>\<open>new Error(message)\<close>, or the \<^verbatim>\<open>TypeError\<close> the
  engine raises when a property of \<^verbatim>\<open>null\<close> is read (its message is engine-defined).\<close>

datatype error = Error string | TypeError

record account =
  publicKey :: pubkey

text \<open>
  \<^verbatim>\<open>Transaction\<close> belongs to the web3 library. Of its content the client touches the
  recent blockhash, the signer keys (\<^verbatim>\<open>setSigners\<close>) and the signatures
  (\<^verbatim>\<open>sign\<close>); the instructions are an opaque payload.
\<close>

record transaction =
  instructions :: string
  recentBlockhash :: "string option"
  signerKeys :: "pubkey list"
  signedBy :: "pubkey list"

definition setSigners :: "transaction \<Rightarrow> pubkey list \<Rightarrow> transaction" where
  "setSigners tx keys = tx\<lparr>signerKeys := keys\<rparr>"

definition sign :: "transaction \<Rightarrow> account list \<Rightarrow> transaction" where
  "sign tx signers = tx\<lparr>signedBy := map publicKey signers\<rparr>"

datatype confirmation_status = processed | confirmed | finalized

text \<open>
  The \<^verbatim>\<open>err\<close> field of a dry-run has the type
  \<^verbatim>\<open>TransactionError | string | null\<close>, where a \<^verbatim>\<open>TransactionError\<close> is an object
  or a string. An object is carried as an opaque text. The client tests the field for
  truthiness: \<^verbatim>\<open>null\<close> and the empty string are falsy, everything else is truthy.
\<close>

datatype tx_error = ErrNull | ErrString string | ErrObject string

fun truthy :: "tx_error \<Rightarrow> bool" where
  "truthy ErrNull = False"
| "truthy (ErrString s) = (s \<noteq> [])"
| "truthy (ErrObject obj) = True"

record simulated_response =
  err :: tx_error
  logs :: "string list option"

text \<open>
  Modelled from the spec: \<^verbatim>\<open>awaitTransactionSignatureConfirmation\<close> lives in
  \<^verbatim>\<open>./utils\<close>, outside the sources at hand. It resolves (\<open>Confirmed\<close>) or
  throws; \<open>Timeout\<close> is a thrown value whose \<^verbatim>\<open>timeout\<close> property is truthy,
  \<open>Rejected e\<close> a thrown value without such a property: the raw status error, which is
  not empty, carried as a text. The client reads nothing of it but \<^verbatim>\<open>err.timeout\<close>.
\<close>

datatype watcher_result = Confirmed | Timeout | Rejected string

section \<open>The failure diagnosis\<close>

definition startsWith :: "string \<Rightarrow> string \<Rightarrow> bool" where
  "startsWith line p = (take (length p) line = p)"

definition slice :: "string \<Rightarrow> nat \<Rightarrow> string" where
  "slice line n = drop n line"

definition program_log_marker :: string where
  "program_log_marker = ''Program log: ''"

text \<open>
  The loop of lines 130 to 137:
  \<^verbatim>\<open>for (let i = logs.length - 1; i >= 0; --i)\<close>. It leaves at the first line that starts
  with the marker, with that line cut after the marker; \<open>None\<close> is the loop running to its
  end.
\<close>

function scan_logs :: "string list \<Rightarrow> int \<Rightarrow> string option" where
  "scan_logs ls i =
     (if i \<ge> 0 then
        (let line = ls ! nat i in
           if startsWith line program_log_marker
           then Some (slice line (length program_log_marker))
           else scan_logs ls (i - 1))
      else None)"
  by pat_completeness auto
termination
  by (relation "measure (\<lambda>(ls, i). nat (i + 1))") auto

declare scan_logs.simps [simp del]

text \<open>
  Lines 128 to 141, what is thrown once the dry-run has been attempted. \<open>None\<close> is a
  \<^verbatim>\<open>simulateResult\<close> that is still \<^verbatim>\<open>null\<close> (the call threw, or its response had no
  value). \<^verbatim>\<open>JSON.stringify\<close> is the engine's serializer, a parameter here.
\<close>

definition diagnose :: "(tx_error \<Rightarrow> string) \<Rightarrow> simulated_response option \<Rightarrow> error" where
  "diagnose stringify simulateResult =
     (case simulateResult of
        None \<Rightarrow> Error ''Transaction failed''
      | Some sr \<Rightarrow>
          if truthy (err sr) then
            (case logs sr of
               Some ls \<Rightarrow>
                 (case scan_logs ls (int (length ls) - 1) of
                    Some msg \<Rightarrow> Error (''Transaction failed: '' @ msg)
                  | None \<Rightarrow> Error (stringify (err sr)))
             | None \<Rightarrow> Error (stringify (err sr)))
          else Error ''Transaction failed'')"

section \<open>One submission\<close>

text \<open>
  The network as one submission meets it. Every field is the answer to one kind of call
  of the client; the client decides none of them.
  \<^item> \<open>sendRawTransaction net k raw\<close> answers the \<open>k\<close>-th send of the submission: number
    \<open>0\<close> is the awaited send of line 91, the later ones are the sends of the loop.
  \<^item> \<open>serialize\<close> stands for the web3 library signing and serializing; it may throw.
  \<^item> The clock is read in milliseconds (\<^verbatim>\<open>Date.getTime\<close>): at line 89, when the loop
    is launched, and each time the loop wakes from \<^verbatim>\<open>sleep(300)\<close>. How often the loop
    wakes while the client awaits the confirmation, and while it awaits the dry-run, is
    the scheduler's choice: one clock reading per wake-up.
  \<^item> \<open>settles_at\<close> orders the submissions of one batch by the moment their promises
    settle.
\<close>

record network =
  getRecentBlockhash :: "error + string"
  serialize :: "transaction \<Rightarrow> error + raw"
  sendRawTransaction :: "nat \<Rightarrow> raw \<Rightarrow> error + txid"
  awaitTransactionSignatureConfirmation :: "txid \<Rightarrow> real \<Rightarrow> confirmation_status \<Rightarrow> watcher_result"
  simulateTransaction :: "transaction \<Rightarrow> error + simulated_response option"
  clock_start :: int
  clock_launch :: int
  wakeups_awaiting :: "int list"
  wakeups_simulating :: "int list"
  settles_at :: nat

datatype request =
    GetRecentBlockhash
  | SendRawTransaction raw
  | AwaitConfirmation txid real confirmation_status
  | SimulateTransaction transaction

text \<open>
  The background loop of lines 98 to 105 is a coroutine: not launched yet, suspended in
  \<^verbatim>\<open>sleep(300)\<close> with the variables it closes over (\<^verbatim>\<open>rawTransaction\<close>,
  \<^verbatim>\<open>startTime\<close>, \<^verbatim>\<open>timeout\<close>), or finished.
\<close>

datatype broadcaster = NotStarted | Sleeping raw real real | Finished

text \<open>
  \<open>calls\<close> lists the requests sent to the network, in order. \<open>dropped\<close> holds the
  outcomes of the loop's sends: promises that no code awaits and that carry no handler, so
  that a rejected one is an unhandled rejection. \<open>done_flag\<close> is the variable
  \<^verbatim>\<open>done\<close> of line 97.
\<close>

record state =
  calls :: "request list"
  dropped :: "(error + txid) list"
  done_flag :: bool
  loop :: broadcaster

definition initial :: state where
  "initial = \<lparr>calls = [], dropped = [], done_flag = False, loop = NotStarted\<rparr>"

text \<open>
  \<^verbatim>\<open>getUnixTs\<close>, lines 38 to 40. The division here, and the subtraction and comparison
  of line 99, are exact, where the code rounds to doubles: the two can differ for a clock
  reading within rounding distance of the deadline. The properties below hold for every
  clock reading, or are evaluated far from the deadline.
\<close>

definition getUnixTs :: "int \<Rightarrow> real" where
  "getUnixTs ms = of_int ms / 1000"

text \<open>
  One pass through the head of the \<^verbatim>\<open>while\<close> of line 99, at clock reading \<open>now\<close>:
  when the condition holds the transaction is sent again, the promise of the send is
  dropped, and the loop sleeps; otherwise the loop is over. A loop that is not sleeping
  does nothing.
\<close>

definition loop_iteration :: "network \<Rightarrow> int \<Rightarrow> state \<Rightarrow> state" where
  "loop_iteration net now s =
     (case loop s of
        Sleeping rawTransaction startTime timeout \<Rightarrow>
          if \<not> done_flag s \<and> getUnixTs now - startTime < timeout / 1000
          then s\<lparr>calls := calls s @ [SendRawTransaction rawTransaction],
                 dropped := dropped s @
                   [sendRawTransaction net (Suc (length (dropped s))) rawTransaction]\<rparr>
          else s\<lparr>loop := Finished\<rparr>
      | _ \<Rightarrow> s)"

definition wake :: "network \<Rightarrow> int list \<Rightarrow> state \<Rightarrow> state" where
  "wake net clocks s = fold (loop_iteration net) clocks s"

definition request :: "request \<Rightarrow> state \<Rightarrow> state" where
  "request r s = s\<lparr>calls := calls s @ [r]\<rparr>"

text \<open>
  Lines 78 to 87: the transaction once the blockhash is attached, the signer keys are set
  and payer and additional signers have signed.
\<close>

definition prepared :: "transaction \<Rightarrow> string \<Rightarrow> account \<Rightarrow> account list \<Rightarrow> transaction" where
  "prepared tx blockhash payer additionalSigners =
     (let tx1 = tx\<lparr>recentBlockhash := Some blockhash\<rparr>;
          tx2 = setSigners tx1 (publicKey payer # map publicKey additionalSigners);
          signers = [payer] @ additionalSigners
      in sign tx2 signers)"

text \<open>What the dry-run leaves in \<^verbatim>\<open>simulateResult\<close> (lines 118 to 127).\<close>

definition simulate_result :: "network \<Rightarrow> transaction \<Rightarrow> simulated_response option" where
  "simulate_result net transaction =
     (case simulateTransaction net transaction of Inl e \<Rightarrow> None | Inr v \<Rightarrow> v)"

text \<open>
  \<^verbatim>\<open>sendTransaction\<close>, lines 71 to 148. The result is what the promise settles with
  (\<open>Inl\<close> a thrown error, \<open>Inr\<close> the identifier) and the state at that moment. The
  \<^verbatim>\<open>finally\<close> of line 143 is the \<open>done_flag := True\<close> of the three exits of the
  \<^verbatim>\<open>try\<close>. Writes to the console are left out.
\<close>

definition sendTransaction ::
  "(tx_error \<Rightarrow> string) \<Rightarrow> network \<Rightarrow> transaction \<Rightarrow> account \<Rightarrow> account list \<Rightarrow> real \<Rightarrow>
     confirmation_status \<Rightarrow> (error + txid) \<times> state" where
  "sendTransaction stringify net tx payer additionalSigners timeout confirmLevel =
     (let s1 = request GetRecentBlockhash initial in
      case getRecentBlockhash net of
        Inl e \<Rightarrow> (Inl e, s1)
      | Inr blockhash \<Rightarrow>
          let transaction = prepared tx blockhash payer additionalSigners
          in case serialize net transaction of
               Inl e \<Rightarrow> (Inl e, s1)
             | Inr rawTransaction \<Rightarrow>
                 let startTime = getUnixTs (clock_start net);
                     s2 = request (SendRawTransaction rawTransaction) s1
                 in case sendRawTransaction net 0 rawTransaction of
                      Inl e \<Rightarrow> (Inl e, s2)
                    | Inr txid \<Rightarrow>
                        let s3 = s2\<lparr>done_flag := False,
                                    loop := Sleeping rawTransaction startTime timeout\<rparr>;
                            s4 = loop_iteration net (clock_launch net) s3;
                            s5 = request (AwaitConfirmation txid timeout confirmLevel) s4;
                            s6 = wake net (wakeups_awaiting net) s5
                        in case awaitTransactionSignatureConfirmation net txid timeout confirmLevel of
                             Confirmed \<Rightarrow> (Inr txid, s6\<lparr>done_flag := True\<rparr>)
                           | Timeout \<Rightarrow>
                               (Inl (Error ''Timed out awaiting confirmation on transaction''),
                                s6\<lparr>done_flag := True\<rparr>)
                           | Rejected e \<Rightarrow>
                               let s7 = request (SimulateTransaction transaction) s6;
                                   s8 = wake net (wakeups_simulating net) s7;
                                   simulateResult = simulate_result net transaction
                               in (Inl (diagnose stringify simulateResult),
                                   s8\<lparr>done_flag := True\<rparr>))"

text \<open>
  How far a submission gets before the \<^verbatim>\<open>try\<close> of line 107: \<open>None\<close> when the
  blockhash, the serialization or the first send fails; otherwise the identifier, the signed
  transaction and what the Watcher reports.
\<close>

definition watcher_outcome ::
  "network \<Rightarrow> transaction \<Rightarrow> account \<Rightarrow> account list \<Rightarrow> real \<Rightarrow> confirmation_status \<Rightarrow>
     (txid \<times> transaction \<times> watcher_result) option" where
  "watcher_outcome net tx payer additionalSigners timeout confirmLevel =
     (case getRecentBlockhash net of
        Inl e \<Rightarrow> None
      | Inr blockhash \<Rightarrow>
          let transaction = prepared tx blockhash payer additionalSigners
          in case serialize net transaction of
               Inl e \<Rightarrow> None
             | Inr rawTransaction \<Rightarrow>
                 (case sendRawTransaction net 0 rawTransaction of
                    Inl e \<Rightarrow> None
                  | Inr txid \<Rightarrow>
                      Some (txid, transaction,
                            awaitTransactionSignatureConfirmation net txid timeout confirmLevel)))"

text \<open>
  The state at the moment the promise of line 108 settles, before the \<^verbatim>\<open>catch\<close> or
  the \<^verbatim>\<open>finally\<close> has run: \<open>None\<close> when the submission does not get that far.
\<close>

definition state_at_outcome ::
  "network \<Rightarrow> transaction \<Rightarrow> account \<Rightarrow> account list \<Rightarrow> real \<Rightarrow> confirmation_status \<Rightarrow>
     state option" where
  "state_at_outcome net tx payer additionalSigners timeout confirmLevel =
     (let s1 = request GetRecentBlockhash initial in
      case getRecentBlockhash net of
        Inl e \<Rightarrow> None
      | Inr blockhash \<Rightarrow>
          let transaction = prepared tx blockhash payer additionalSigners
          in case serialize net transaction of
               Inl e \<Rightarrow> None
             | Inr rawTransaction \<Rightarrow>
                 let startTime = getUnixTs (clock_start net);
                     s2 = request (SendRawTransaction rawTransaction) s1
                 in case sendRawTransaction net 0 rawTransaction of
                      Inl e \<Rightarrow> None
                    | Inr txid \<Rightarrow>
                        let s3 = s2\<lparr>done_flag := False,
                                    loop := Sleeping rawTransaction startTime timeout\<rparr>;
                            s4 = loop_iteration net (clock_launch net) s3;
                            s5 = request (AwaitConfirmation txid timeout confirmLevel) s4
                        in Some (wake net (wakeups_awaiting net) s5))"

section \<open>The host and unhandled rejections\<close>

text \<open>
  The promise of a send of the loop (lines 100 to 102) is neither awaited nor given a
  handler. When it rejects, the rejection is unhandled, and what follows is the host's
  choice. Node's modes for it are taken here: \<open>WarnOnUnhandled\<close> prints a warning and
  goes on (the default before version 15); \<open>ThrowOnUnhandled\<close> raises the rejection as
  an uncaught exception, which ends the process (the default since version 15). The
  submission above is the submission on a host that goes on.
\<close>

datatype host = WarnOnUnhandled | ThrowOnUnhandled

definition unhandled_rejections :: "state \<Rightarrow> error list" where
  "unhandled_rejections s = [e. Inl e \<leftarrow> dropped s]"

definition process_survives :: "host \<Rightarrow> state \<Rightarrow> bool" where
  "process_survives h s = (h = WarnOnUnhandled \<or> unhandled_rejections s = [])"

section \<open>The batch\<close>

text \<open>
  \<^verbatim>\<open>Promise.all\<close> over promises that settle at the given moments: the array of the
  values when every promise is fulfilled, otherwise the reason of the promise that
  rejects first (of two rejecting at the same moment, the one earlier in the array).
\<close>

fun first_rejection :: "(nat \<times> (error + 'a)) list \<Rightarrow> (nat \<times> error) option" where
  "first_rejection [] = None"
| "first_rejection ((t, Inr v) # ps) = first_rejection ps"
| "first_rejection ((t, Inl e) # ps) =
     (case first_rejection ps of
        None \<Rightarrow> Some (t, e)
      | Some (t', e') \<Rightarrow> if t' < t then Some (t', e') else Some (t, e))"

definition promise_all :: "(nat \<times> (error + 'a)) list \<Rightarrow> error + 'a list" where
  "promise_all ps =
     (case first_rejection ps of
        Some (t, e) \<Rightarrow> Inl e
      | None \<Rightarrow> Inr [v. (t, Inr v) \<leftarrow> ps])"

text \<open>
  \<^verbatim>\<open>sendTransactions\<close>, lines 51 to 69: one \<^verbatim>\<open>sendTransaction\<close> per entry, each
  with the batch's payer, signers, timeout and level, gathered by \<^verbatim>\<open>Promise.all\<close>.
  Each entry comes with the network as its own submission meets it. Next to the result
  stand the states the submissions end in, one per entry.
\<close>

definition sendTransactions ::
  "(tx_error \<Rightarrow> string) \<Rightarrow> (network \<times> transaction) list \<Rightarrow> account \<Rightarrow> account list \<Rightarrow> real \<Rightarrow>
     confirmation_status \<Rightarrow> (error + txid list) \<times> state list" where
  "sendTransactions stringify transactions payer additionalSigners timeout confirmLevel =
     (let runs = map (\<lambda>(net, tx).
                   (settles_at net,
                    sendTransaction stringify net tx payer additionalSigners timeout confirmLevel))
                 transactions
      in (promise_all (map (\<lambda>(t, r, s). (t, r)) runs), map (\<lambda>(t, r, s). s) runs))"

section \<open>Perp orders\<close>

text \<open>Lines 435 to 441: both methods throw at once; nothing else happens.\<close>

definition placePerpOrder :: "state \<Rightarrow> (error + txid list) \<times> state" where
  "placePerpOrder s = (Inl (Error ''Not Implemented''), s)"

definition cancelPerpOrder :: "state \<Rightarrow> (error + txid list) \<times> state" where
  "cancelPerpOrder s = (Inl (Error ''Not Implemented''), s)"

section \<open>Reading accounts\<close>

record account_info =
  data :: string

text \<open>
  The connection as the readers meet it: what \<^verbatim>\<open>getAccountInfo\<close> answers for a key
  (\<open>Inr None\<close> is \<^verbatim>\<open>null\<close>, no such account) and when the answer arrives.
\<close>

record connection =
  getAccountInfo :: "pubkey \<Rightarrow> error + account_info option"
  answered_at :: "pubkey \<Rightarrow> nat"

datatype 'd MerpsGroup = MerpsGroup pubkey 'd
datatype 'd MerpsAccount = MerpsAccount pubkey 'd
datatype 'd RootBank = RootBank 'd

text \<open>
  The layout decoders (\<^verbatim>\<open>./layout\<close>) and \<^verbatim>\<open>loadOpenOrders\<close> are parameters. A
  decoder takes the buffer, or \<open>None\<close> for \<^verbatim>\<open>undefined\<close>, and may throw.
\<close>

definition getMerpsGroup ::
  "connection \<Rightarrow> (string option \<Rightarrow> error + 'd) \<Rightarrow> pubkey \<Rightarrow> error + 'd MerpsGroup" where
  "getMerpsGroup conn decode merpsGroup =
     (case getAccountInfo conn merpsGroup of
        Inl e \<Rightarrow> Inl e
      | Inr accountInfo \<Rightarrow>
          (case decode (case accountInfo of None \<Rightarrow> None | Some a \<Rightarrow> Some (data a)) of
             Inl e \<Rightarrow> Inl e
           | Inr decoded \<Rightarrow> Inr (MerpsGroup merpsGroup decoded)))"

definition getMerpsAccount ::
  "connection \<Rightarrow> (string option \<Rightarrow> error + 'd) \<Rightarrow>
     ('d MerpsAccount \<Rightarrow> pubkey \<Rightarrow> error + 'd MerpsAccount) \<Rightarrow> pubkey \<Rightarrow> pubkey \<Rightarrow>
     error + 'd MerpsAccount" where
  "getMerpsAccount conn decode loadOpenOrders merpsAccountPk dexProgramId =
     (case getAccountInfo conn merpsAccountPk of
        Inl e \<Rightarrow> Inl e
      | Inr acc \<Rightarrow>
          (case decode (case acc of None \<Rightarrow> None | Some a \<Rightarrow> Some (data a)) of
             Inl e \<Rightarrow> Inl e
           | Inr decoded \<Rightarrow> loadOpenOrders (MerpsAccount merpsAccountPk decoded) dexProgramId))"

text \<open>
  The \<^verbatim>\<open>accounts.map\<close> of lines 448 to 451, from the first account on: reading
  \<^verbatim>\<open>acc.data\<close> of a \<^verbatim>\<open>null\<close> account is a \<^verbatim>\<open>TypeError\<close>, and nothing is
  returned once an element throws.
\<close>

fun parse_accounts ::
  "(string option \<Rightarrow> error + 'd) \<Rightarrow> account_info option list \<Rightarrow> error + 'd RootBank list" where
  "parse_accounts decode [] = Inr []"
| "parse_accounts decode (None # accs) = Inl TypeError"
| "parse_accounts decode (Some acc # accs) =
     (case decode (Some (data acc)) of
        Inl e \<Rightarrow> Inl e
      | Inr decoded \<Rightarrow>
          (case parse_accounts decode accs of
             Inl e \<Rightarrow> Inl e
           | Inr banks \<Rightarrow> Inr (RootBank decoded # banks)))"

definition loadRootBanks ::
  "connection \<Rightarrow> (string option \<Rightarrow> error + 'd) \<Rightarrow> pubkey list \<Rightarrow> error + 'd RootBank list" where
  "loadRootBanks conn decode rootBanks =
     (case promise_all (map (\<lambda>pk. (answered_at conn pk, getAccountInfo conn pk)) rootBanks) of
        Inl e \<Rightarrow> Inl e
      | Inr accounts \<Rightarrow> parse_accounts decode accounts)"

section \<open>Vocabulary of the properties\<close>

text \<open>
  A dry-run is inconclusive when it left no result (it threw, or answered without a value)
  or its result carries no truthy error.
\<close>

definition inconclusive :: "simulated_response option \<Rightarrow> bool" where
  "inconclusive simulateResult =
     (case simulateResult of None \<Rightarrow> True | Some sr \<Rightarrow> \<not> truthy (err sr))"

text \<open>A text occurs in a message; a result carries a text when it is an error whose
  message the text occurs in.\<close>

fun occurs_in :: "string \<Rightarrow> string \<Rightarrow> bool" where
  "occurs_in p [] = (p = [])"
| "occurs_in p (c # cs) = (startsWith (c # cs) p \<or> occurs_in p cs)"

definition carries :: "error + 'a \<Rightarrow> string \<Rightarrow> bool" where
  "carries r t = (case r of Inl (Error m) \<Rightarrow> occurs_in t m | _ \<Rightarrow> False)"

text \<open>The identifiers a caller of the batch holds once the promise has settled.\<close>

definition delivered_identifiers :: "error + txid list \<Rightarrow> txid list" where
  "delivered_identifiers r = (case r of Inl e \<Rightarrow> [] | Inr ids \<Rightarrow> ids)"

text \<open>The results of the entries of a batch, each from its own submission.\<close>

definition entry_results ::
  "(tx_error \<Rightarrow> string) \<Rightarrow> (network \<times> transaction) list \<Rightarrow> account \<Rightarrow> account list \<Rightarrow> real \<Rightarrow>
     confirmation_status \<Rightarrow> (error + txid) list" where
  "entry_results stringify transactions payer additionalSigners timeout confirmLevel =
     map (\<lambda>(net, tx).
            fst (sendTransaction stringify net tx payer additionalSigners timeout confirmLevel))
       transactions"

text \<open>The requests that are dry-runs.\<close>

fun is_simulate :: "request \<Rightarrow> bool" where
  "is_simulate (SimulateTransaction t) = True"
| "is_simulate r = False"

text \<open>The requests that send the transaction.\<close>

fun is_send :: "request \<Rightarrow> bool" where
  "is_send (SendRawTransaction raw) = True"
| "is_send r = False"

text \<open>What of a state does not depend on the answers to the loop's sends.\<close>

definition observable :: "state \<Rightarrow> request list \<times> bool \<times> broadcaster \<times> nat" where
  "observable s = (calls s, done_flag s, loop s, length (dropped s))"

section \<open>Sample runs\<close>

text \<open>
  A serializer for the sample runs. It agrees with \<^verbatim>\<open>JSON.stringify\<close> on
  \<^verbatim>\<open>null\<close>, on strings without characters to escape, and on object texts.
\<close>

fun sample_stringify :: "tx_error \<Rightarrow> string" where
  "sample_stringify ErrNull = ''null''"
| "sample_stringify (ErrString s) = CHR 0x22 # s @ [CHR 0x22]"
| "sample_stringify (ErrObject obj) = obj"

text \<open>
  A network that hands out a blockhash, accepts the first send under the identifier
  \<open>sig\<close>, fails every later send, and lets the loop wake twice while the confirmation is
  awaited and once during the dry-run. The Watcher's report and the dry-run's answer are
  left open.
\<close>

definition sample_network :: "watcher_result \<Rightarrow> error + simulated_response option \<Rightarrow> network" where
  "sample_network w sim =
     \<lparr>getRecentBlockhash = Inr ''hash'',
      serialize = (\<lambda>tx. Inr (instructions tx)),
      sendRawTransaction = (\<lambda>k raw. if k = 0 then Inr ''sig'' else Inl (Error ''fetch failed'')),
      awaitTransactionSignatureConfirmation = (\<lambda>txid timeout level. w),
      simulateTransaction = (\<lambda>tx. sim),
      clock_start = 0,
      clock_launch = 20,
      wakeups_awaiting = [320, 620],
      wakeups_simulating = [920],
      settles_at = 0\<rparr>"

definition sample_transaction :: transaction where
  "sample_transaction =
     \<lparr>instructions = ''deposit'', recentBlockhash = None, signerKeys = [], signedBy = []\<rparr>"

definition sample_payer :: account where
  "sample_payer = \<lparr>publicKey = ''payer''\<rparr>"

definition sample_signed :: transaction where
  "sample_signed =
     \<lparr>instructions = ''deposit'', recentBlockhash = Some ''hash'', signerKeys = [''payer''],
      signedBy = [''payer'']\<rparr>"

text \<open>A connection on which every account exists but the one called \<open>missing\<close>.\<close>

definition sample_connection :: connection where
  "sample_connection =
     \<lparr>getAccountInfo =
        (\<lambda>pk. if pk = ''missing'' then Inr None else Inr (Some \<lparr>data = ''bytes''\<rparr>)),
      answered_at = (\<lambda>pk. 0)\<rparr>"

section \<open>Facts about the log scan\<close>

lemma scan_logs_find:
  "- 1 \<le> i \<Longrightarrow> i + 1 \<le> int (length ls) \<Longrightarrow>
   scan_logs ls i =
     map_option (\<lambda>l. slice l (length program_log_marker))
       (find (\<lambda>l. startsWith l program_log_marker) (rev (take (nat (i + 1)) ls)))"
proof (induction ls i rule: scan_logs.induct)
  case (1 ls i)
  show ?case
  proof (cases "i \<ge> 0")
    case False
    with "1.prems" have "i = - 1" by simp
    then show ?thesis by (subst scan_logs.simps) simp
  next
    case True
    with "1.prems" have lt: "nat i < length ls" by linarith
    have tk: "take (nat (i + 1)) ls = take (nat i) ls @ [ls ! nat i]"
      using True lt by (simp add: nat_add_distrib take_Suc_conv_app_nth)
    show ?thesis
    proof (cases "startsWith (ls ! nat i) program_log_marker")
      case hit: True
      then show ?thesis using True tk by (subst scan_logs.simps) simp
    next
      case miss: False
      have "scan_logs ls (i - 1) =
        map_option (\<lambda>l. slice l (length program_log_marker))
          (find (\<lambda>l. startsWith l program_log_marker) (rev (take (nat (i - 1 + 1)) ls)))"
        using "1.IH"[OF True refl miss] True "1.prems" by simp
      then show ?thesis using True tk miss by (subst scan_logs.simps) simp
    qed
  qed
qed

lemma scan_logs_all:
  "scan_logs ls (int (length ls) - 1) =
     map_option (\<lambda>l. slice l (length program_log_marker))
       (find (\<lambda>l. startsWith l program_log_marker) (rev ls))"
  using scan_logs_find[of "int (length ls) - 1" ls] by simp

lemma scan_logs_none:
  "\<forall>l\<in>set ls. \<not> startsWith l program_log_marker \<Longrightarrow>
   scan_logs ls (int (length ls) - 1) = None"
  by (simp add: scan_logs_all find_None_iff)

section \<open>Facts about one submission\<close>

lemma sendTransaction_watched:
  assumes "watcher_outcome net tx payer signers timeout level = Some (txid, transaction, w)"
  shows "fst (sendTransaction stringify net tx payer signers timeout level) =
     (case w of
        Confirmed \<Rightarrow> Inr txid
      | Timeout \<Rightarrow> Inl (Error ''Timed out awaiting confirmation on transaction'')
      | Rejected e \<Rightarrow> Inl (diagnose stringify (simulate_result net transaction)))"
  using assms
  by (auto simp: watcher_outcome_def sendTransaction_def Let_def
           split: sum.splits watcher_result.splits)

lemma watched_done:
  assumes "watcher_outcome net tx payer signers timeout level = Some (txid, transaction, w)"
  shows "done_flag (snd (sendTransaction stringify net tx payer signers timeout level))"
  using assms
  by (auto simp: watcher_outcome_def sendTransaction_def Let_def
           split: sum.splits watcher_result.splits)

lemma loop_iteration_simulate:
  "filter is_simulate (calls (loop_iteration net now s)) = filter is_simulate (calls s)"
  by (auto simp: loop_iteration_def split: broadcaster.splits)

lemma wake_simulate:
  "filter is_simulate (calls (wake net clocks s)) = filter is_simulate (calls s)"
  unfolding wake_def
  by (induction clocks arbitrary: s) (simp_all add: loop_iteration_simulate)

lemma timeout_no_simulate:
  assumes "watcher_outcome net tx payer signers timeout level = Some (txid, transaction, Timeout)"
  shows "filter is_simulate (calls (snd (sendTransaction stringify net tx payer signers timeout level))) = []"
  using assms
  by (auto simp: watcher_outcome_def sendTransaction_def Let_def request_def initial_def
        wake_simulate loop_iteration_simulate
           split: sum.splits watcher_result.splits)

text \<open>
  On a host that goes on after an unhandled rejection, the answers to the loop's sends
  change the dropped promises and nothing else.
\<close>

lemma loop_iteration_observable:
  "observable s = observable s' \<Longrightarrow>
   observable (loop_iteration net now s) = observable (loop_iteration net' now s')"
  by (auto simp: observable_def loop_iteration_def split: broadcaster.splits)

lemma wake_observable:
  "observable s = observable s' \<Longrightarrow>
   observable (wake net clocks s) = observable (wake net' clocks s')"
  unfolding wake_def
proof (induction clocks arbitrary: s s')
  case Nil
  then show ?case by simp
next
  case (Cons c cs)
  from Cons.prems
  have "observable (loop_iteration net c s) = observable (loop_iteration net' c s')"
    by (rule loop_iteration_observable)
  then show ?case using Cons.IH by simp
qed

lemma request_observable:
  "observable s = observable s' \<Longrightarrow> observable (request r s) = observable (request r s')"
  by (simp add: observable_def request_def)

lemma set_done_observable:
  "observable s = observable s' \<Longrightarrow>
   observable (s\<lparr>done_flag := b\<rparr>) = observable (s'\<lparr>done_flag := b\<rparr>)"
  by (simp add: observable_def)

lemma resend_independent:
  assumes "f 0 = sendRawTransaction net 0"
  shows "fst (sendTransaction stringify (net\<lparr>sendRawTransaction := f\<rparr>) tx payer signers timeout level)
       = fst (sendTransaction stringify net tx payer signers timeout level)
     \<and> observable (snd (sendTransaction stringify (net\<lparr>sendRawTransaction := f\<rparr>) tx payer signers timeout level))
       = observable (snd (sendTransaction stringify net tx payer signers timeout level))"
  using assms
  unfolding sendTransaction_def Let_def
  by (auto split: sum.splits watcher_result.splits simp: simulate_result_def
      intro!: set_done_observable wake_observable request_observable loop_iteration_observable)

lemma loop_iteration_done:
  "done_flag s \<Longrightarrow> calls (loop_iteration net now s) = calls s"
  "done_flag s \<Longrightarrow> done_flag (loop_iteration net now s)"
  "done_flag s \<Longrightarrow> dropped (loop_iteration net now s) = dropped s"
  by (auto simp: loop_iteration_def split: broadcaster.splits)

lemma wake_done:
  "done_flag s \<Longrightarrow> calls (wake net clocks s) = calls s \<and> done_flag (wake net clocks s)
     \<and> dropped (wake net clocks s) = dropped s"
  unfolding wake_def
  by (induction clocks arbitrary: s) (simp_all add: loop_iteration_done)

lemma wake_NotStarted: "loop s = NotStarted \<Longrightarrow> wake net clocks s = s"
  unfolding wake_def
  by (induction clocks arbitrary: s) (simp_all add: loop_iteration_def)

lemma sendTransaction_done:
  "done_flag (snd (sendTransaction stringify net tx payer signers timeout level))
   \<or> loop (snd (sendTransaction stringify net tx payer signers timeout level)) = NotStarted"
  by (auto simp: sendTransaction_def Let_def request_def initial_def
           split: sum.splits watcher_result.splits)

lemma loop_iteration_flag: "done_flag (loop_iteration net now s) = done_flag s"
  by (simp add: loop_iteration_def split: broadcaster.splits)

lemma wake_flag: "done_flag (wake net clocks s) = done_flag s"
  unfolding wake_def
  by (induction clocks arbitrary: s) (simp_all add: loop_iteration_flag)

lemma state_at_outcome_flag:
  "state_at_outcome net tx payer signers timeout level = Some s6 \<Longrightarrow> \<not> done_flag s6"
  by (auto simp: state_at_outcome_def Let_def wake_flag loop_iteration_flag request_def
           split: sum.splits)

lemma sendTransaction_after_outcome:
  assumes "watcher_outcome net tx payer signers timeout level = Some (txid, transaction, w)"
    and "state_at_outcome net tx payer signers timeout level = Some s6"
  shows "snd (sendTransaction stringify net tx payer signers timeout level) =
     (case w of
        Rejected e \<Rightarrow>
          (wake net (wakeups_simulating net) (request (SimulateTransaction transaction) s6))
            \<lparr>done_flag := True\<rparr>
      | _ \<Rightarrow> s6\<lparr>done_flag := True\<rparr>)"
  using assms
  by (auto simp: watcher_outcome_def state_at_outcome_def sendTransaction_def Let_def
           split: sum.splits watcher_result.splits)


section \<open>Facts about gathered promises and account parsing\<close>

lemma first_rejection_None:
  "(first_rejection ps = None) = (\<forall>p\<in>set ps. \<not> isl (snd p))"
proof (induction ps rule: first_rejection.induct)
  case 1
  show ?case by simp
next
  case (2 t v ps)
  then show ?case by simp
next
  case (3 t e ps)
  show ?case by (simp split: option.splits)
qed

lemma fulfilled_values:
  "\<forall>p\<in>set ps. \<not> isl (snd p) \<Longrightarrow> [v. (t, Inr v) \<leftarrow> ps] = map (projr \<circ> snd) ps"
proof (induction ps)
  case Nil
  show ?case by simp
next
  case (Cons p ps)
  obtain t r where p: "p = (t, r)" by (cases p)
  with Cons.prems obtain v where r: "r = Inr v" by (cases r) auto
  show ?case using Cons p r by simp
qed

lemma promise_all_fulfilled:
  "\<forall>p\<in>set ps. \<not> isl (snd p) \<Longrightarrow> promise_all ps = Inr (map (projr \<circ> snd) ps)"
  using first_rejection_None[of ps] by (simp add: promise_all_def fulfilled_values)

lemma first_rejection_skip:
  "\<forall>p\<in>set pre. \<not> isl (snd p) \<Longrightarrow> first_rejection (pre @ ps) = first_rejection ps"
proof (induction pre)
  case Nil
  show ?case by simp
next
  case (Cons p pre)
  obtain t r where p: "p = (t, r)" by (cases p)
  with Cons.prems obtain v where r: "r = Inr v" by (cases r) auto
  show ?case using Cons p r by simp
qed

lemma promise_all_single_rejection:
  assumes k: "k < length ps" and e: "snd (ps ! k) = Inl e"
    and others: "\<forall>i<length ps. i \<noteq> k \<longrightarrow> \<not> isl (snd (ps ! i))"
  shows "promise_all ps = Inl e"
proof -
  have split: "ps = take k ps @ ps ! k # drop (Suc k) ps"
    using k by (simp add: id_take_nth_drop)
  have pre: "\<forall>p\<in>set (take k ps). \<not> isl (snd p)"
  proof
    fix p assume "p \<in> set (take k ps)"
    then obtain i where "i < k" "p = ps ! i"
      using k by (auto simp: in_set_conv_nth)
    then show "\<not> isl (snd p)" using others k by simp
  qed
  have post: "\<forall>p\<in>set (drop (Suc k) ps). \<not> isl (snd p)"
  proof
    fix p assume "p \<in> set (drop (Suc k) ps)"
    then obtain i where "i < length ps - Suc k" "p = ps ! (Suc k + i)"
      by (auto simp: in_set_conv_nth)
    then show "\<not> isl (snd p)" using others by simp
  qed
  obtain t where pk: "ps ! k = (t, Inl e)" using e by (cases "ps ! k") simp
  have "first_rejection ps = first_rejection (ps ! k # drop (Suc k) ps)"
    using first_rejection_skip[OF pre, of "ps ! k # drop (Suc k) ps"] split by simp
  also have "\<dots> = Some (t, e)"
  proof -
    have "first_rejection (drop (Suc k) ps) = None"
      using post by (simp add: first_rejection_None)
    then show ?thesis using pk by simp
  qed
  finally show ?thesis by (simp add: promise_all_def)
qed

lemma promise_all_Inr:
  "promise_all ps = Inr vs \<Longrightarrow> map snd ps = map Inr vs"
proof -
  assume a: "promise_all ps = Inr vs"
  then have none: "first_rejection ps = None"
    by (auto simp: promise_all_def split: option.splits)
  then have ok: "\<forall>p\<in>set ps. \<not> isl (snd p)" by (simp add: first_rejection_None)
  from a none have "vs = map (projr \<circ> snd) ps"
    by (simp add: promise_all_def fulfilled_values[OF ok])
  then show ?thesis using ok by (auto simp: isl_def)
qed

lemma parse_accounts_null:
  "None \<in> set accs \<Longrightarrow> isl (parse_accounts decode accs)"
  by (induction decode accs rule: parse_accounts.induct) (auto split: sum.splits)

lemma parse_accounts_TypeError:
  "None \<in> set accs \<Longrightarrow> \<forall>b. \<not> isl (decode (Some b)) \<Longrightarrow> parse_accounts decode accs = Inl TypeError"
proof (induction decode accs rule: parse_accounts.induct)
  case (1 decode)
  then show ?case by simp
next
  case (2 decode accs)
  show ?case by simp
next
  case (3 decode acc accs)
  from "3.prems" obtain d where d: "decode (Some (data acc)) = Inr d"
    by (cases "decode (Some (data acc))") (auto simp: isl_def)
  from "3.prems" have "None \<in> set accs" by simp
  with "3.IH"[OF d] "3.prems" have "parse_accounts decode accs = Inl TypeError" by simp
  then show ?case using d by simp
qed

lemma loadRootBanks_null:
  assumes "pk \<in> set rootBanks" "getAccountInfo conn pk = Inr None"
  shows "isl (loadRootBanks conn decode rootBanks)"
proof (cases "promise_all (map (\<lambda>pk. (answered_at conn pk, getAccountInfo conn pk)) rootBanks)")
  case (Inl e)
  then show ?thesis by (simp add: loadRootBanks_def)
next
  case (Inr accounts)
  from promise_all_Inr[OF Inr] have "map (getAccountInfo conn) rootBanks = map Inr accounts"
    by (simp add: comp_def)
  then have "Inr None \<in> set (map Inr accounts :: (error + account_info option) list)"
    using assms by (metis image_eqI list.set_map)
  then have "None \<in> set accounts" by auto
  then show ?thesis using Inr by (simp add: loadRootBanks_def parse_accounts_null)
qed

lemma loadRootBanks_TypeError:
  assumes "pk \<in> set rootBanks" "getAccountInfo conn pk = Inr None"
   and "\<forall>p\<in>set rootBanks. \<not> isl (getAccountInfo conn p)" and "\<forall>b. \<not> isl (decode (Some b))"
  shows "loadRootBanks conn decode rootBanks = Inl TypeError"
proof -
  let ?ps = "map (\<lambda>pk. (answered_at conn pk, getAccountInfo conn pk)) rootBanks"
  have "\<forall>p\<in>set ?ps. \<not> isl (snd p)" using assms(3) by auto
  from promise_all_fulfilled[OF this] obtain accounts where acc: "promise_all ?ps = Inr accounts"
    by blast
  from promise_all_Inr[OF acc] have "map (getAccountInfo conn) rootBanks = map Inr accounts"
    by (simp add: comp_def)
  then have "Inr None \<in> set (map Inr accounts :: (error + account_info option) list)"
    using assms by (metis image_eqI list.set_map)
  then have "None \<in> set accounts" by auto
  then show ?thesis using acc assms(4) by (simp add: loadRootBanks_def parse_accounts_TypeError)
qed

lemma sendTransactions_promises:
  "fst (sendTransactions stringify entries payer signers timeout level) =
     promise_all (map (\<lambda>(net, tx).
        (settles_at net, fst (sendTransaction stringify net tx payer signers timeout level)))
       entries)"
  by (simp add: sendTransactions_def Let_def comp_def case_prod_unfold)

lemma sendTransactions_states:
  "snd (sendTransactions stringify entries payer signers timeout level) =
     map (\<lambda>(net, tx). snd (sendTransaction stringify net tx payer signers timeout level)) entries"
  by (simp add: sendTransactions_def Let_def comp_def case_prod_unfold)

lemma promises_results:
  "map snd (map (\<lambda>(net, tx).
        (settles_at net, fst (sendTransaction stringify net tx payer signers timeout level)))
       entries) = entry_results stringify entries payer signers timeout level"
  by (simp add: entry_results_def comp_def case_prod_unfold)


lemmas run_defs = sendTransaction_def Let_def request_def initial_def loop_iteration_def wake_def
  getUnixTs_def prepared_def setSigners_def sign_def simulate_result_def sample_network_def
  sample_transaction_def sample_payer_def watcher_outcome_def sample_signed_def

section \<open>The diagnosis: properties\<close>

text \<open>
  C4. Claimed: whenever the dry-run reports an error and produced log lines, the message
  is taken from the logs. This holds when the error is truthy (neither \<^verbatim>\<open>null\<close> nor
  the empty string): the message is then the first line, going from the last line to the
  first, that starts with \<open>Program log: \<close>, without that marker, and the error thrown
  is \<open>Transaction failed: \<close> followed by this message.
\<close>

theorem diagnosis_reports_last_program_log:
  assumes "watcher_outcome net tx payer signers timeout level =
             Some (txid, transaction, Rejected e)"
    and "simulate_result net transaction = Some sr"
    and "truthy (err sr)"
    and "logs sr = Some ls"
    and "find (\<lambda>l. startsWith l program_log_marker) (rev ls) = Some line"
  shows "scan_logs ls (int (length ls) - 1) = Some (slice line (length program_log_marker))
    \<and> fst (sendTransaction stringify net tx payer signers timeout level) =
        Inl (Error (''Transaction failed: '' @ slice line (length program_log_marker)))"
proof -
  have scan: "scan_logs ls (int (length ls) - 1) = Some (slice line (length program_log_marker))"
    using assms(5) by (simp add: scan_logs_all)
  have "fst (sendTransaction stringify net tx payer signers timeout level) =
          Inl (diagnose stringify (Some sr))"
    using sendTransaction_watched[OF assms(1), of stringify] assms(2) by simp
  then show ?thesis using scan assms(3,4) by (simp add: diagnose_def)
qed

text \<open>The logs \<open>Program log: A\<close>, \<open>Program log: B\<close>, \<open>Program log: C\<close> give the
  message \<open>C\<close>.\<close>

theorem diagnosis_reports_last_program_log_witness:
  "find (\<lambda>l. startsWith l program_log_marker)
     (rev [''Program log: A'', ''Program log: B'', ''Program log: C'']) = Some ''Program log: C''
   \<and> scan_logs [''Program log: A'', ''Program log: B'', ''Program log: C''] 2 = Some ''C''
   \<and> fst (sendTransaction sample_stringify
        (sample_network (Rejected ''AccountNotFound'')
           (Inr (Some \<lparr>err = ErrObject ''InstructionError'',
                           logs = Some [''Program log: A'', ''Program log: B'', ''Program log: C'']\<rparr>)))
        sample_transaction sample_payer [] 30000 confirmed) =
      Inl (Error ''Transaction failed: C'')"
proof -
  let ?sr = "\<lparr>err = ErrObject ''InstructionError'',
               logs = Some [''Program log: A'', ''Program log: B'', ''Program log: C'']\<rparr>"
  let ?net = "sample_network (Rejected ''AccountNotFound'') (Inr (Some ?sr))"
  have h1: "watcher_outcome ?net sample_transaction sample_payer [] 30000 confirmed =
              Some (''sig'', sample_signed, Rejected ''AccountNotFound'')"
    by (simp add: run_defs)
  have h2: "simulate_result ?net sample_signed = Some ?sr"
    by (simp add: simulate_result_def sample_network_def)
  have h3: "truthy (err ?sr)" by simp
  have h4: "logs ?sr = Some [''Program log: A'', ''Program log: B'', ''Program log: C'']"
    by simp
  have h5: "find (\<lambda>l. startsWith l program_log_marker)
              (rev [''Program log: A'', ''Program log: B'', ''Program log: C'']) =
            Some ''Program log: C''"
    by (simp add: startsWith_def program_log_marker_def)
  show ?thesis
    using diagnosis_reports_last_program_log[OF h1 h2 h3 h4 h5, of sample_stringify] h5
    by (simp add: slice_def program_log_marker_def)
qed

text \<open>
  A dry-run whose error is the empty string, with the logs \<open>Program log: A\<close>,
  \<open>Program log: B\<close>, \<open>Program log: C\<close>: the error is not \<^verbatim>\<open>null\<close> and the last line
  starts with the marker, yet the logs are not read and the caller gets \<open>Transaction
  failed\<close>.
\<close>

theorem empty_error_skips_logs_counterexample:
  "err \<lparr>err = ErrString '''',
        logs = Some [''Program log: A'', ''Program log: B'', ''Program log: C'']\<rparr> \<noteq> ErrNull
   \<and> startsWith ''Program log: C'' program_log_marker
   \<and> fst (sendTransaction sample_stringify
        (sample_network (Rejected ''AccountNotFound'')
           (Inr (Some \<lparr>err = ErrString '''',
                         logs = Some [''Program log: A'', ''Program log: B'', ''Program log: C'']\<rparr>)))
        sample_transaction sample_payer [] 30000 confirmed) =
      Inl (Error ''Transaction failed'')
   \<and> fst (sendTransaction sample_stringify
        (sample_network (Rejected ''AccountNotFound'')
           (Inr (Some \<lparr>err = ErrString '''',
                         logs = Some [''Program log: A'', ''Program log: B'', ''Program log: C'']\<rparr>)))
        sample_transaction sample_payer [] 30000 confirmed) \<noteq>
      Inl (Error ''Transaction failed: C'')"
proof -
  let ?sr = "\<lparr>err = ErrString '''',
               logs = Some [''Program log: A'', ''Program log: B'', ''Program log: C'']\<rparr>"
  let ?net = "sample_network (Rejected ''AccountNotFound'') (Inr (Some ?sr))"
  have h1: "watcher_outcome ?net sample_transaction sample_payer [] 30000 confirmed =
              Some (''sig'', sample_signed, Rejected ''AccountNotFound'')"
    by (simp add: run_defs)
  have h2: "simulate_result ?net sample_signed = Some ?sr"
    by (simp add: simulate_result_def sample_network_def)
  have r: "fst (sendTransaction sample_stringify ?net sample_transaction sample_payer [] 30000
             confirmed) = Inl (Error ''Transaction failed'')"
    using sendTransaction_watched[OF h1, of sample_stringify] h2 by (simp add: diagnose_def)
  have m: "startsWith ''Program log: C'' program_log_marker"
    by (simp add: startsWith_def program_log_marker_def)
  show ?thesis unfolding r using m by simp
qed


text \<open>
  C6. When the dry-run cannot be performed (the call throws), the caller receives the
  generic error \<open>Transaction failed\<close>, whatever the dry-run threw.
\<close>

theorem failed_dry_run_gives_generic_error:
  assumes "watcher_outcome net tx payer signers timeout level =
             Some (txid, transaction, Rejected e)"
    and "simulateTransaction net transaction = Inl thrown"
  shows "fst (sendTransaction stringify net tx payer signers timeout level) =
           Inl (Error ''Transaction failed'')"
  using sendTransaction_watched[OF assms(1), of stringify] assms(2)
  by (simp add: simulate_result_def diagnose_def)

theorem failed_dry_run_gives_generic_error_witness:
  "simulateTransaction
     (sample_network (Rejected ''AccountNotFound'') (Inl (Error ''socket hang up'')))
     sample_signed = Inl (Error ''socket hang up'')
   \<and> fst (sendTransaction sample_stringify
        (sample_network (Rejected ''AccountNotFound'') (Inl (Error ''socket hang up'')))
        sample_transaction sample_payer [] 30000 confirmed) =
      Inl (Error ''Transaction failed'')"
proof -
  let ?net = "sample_network (Rejected ''AccountNotFound'')
                (Inl (Error ''socket hang up''))"
  have h1: "watcher_outcome ?net sample_transaction sample_payer [] 30000 confirmed =
              Some (''sig'', sample_signed, Rejected ''AccountNotFound'')"
    by (simp add: run_defs)
  have h2: "simulateTransaction ?net sample_signed = Inl (Error ''socket hang up'')"
    by (simp add: sample_network_def)
  show ?thesis
    using failed_dry_run_gives_generic_error[OF h1 h2, of sample_stringify] h2 by simp
qed

text \<open>
  C5. Claimed: a dry-run with a non-null error and no line starting with the marker
  surfaces the serialized raw error. This holds when the error is truthy (neither
  \<^verbatim>\<open>null\<close> nor the empty string): the error thrown is then the serialized \<^verbatim>\<open>err\<close>,
  with no logs as with logs that hold no marker line.
\<close>

theorem truthy_dry_run_error_is_serialized:
  assumes "watcher_outcome net tx payer signers timeout level =
             Some (txid, transaction, Rejected e)"
    and "simulate_result net transaction = Some sr"
    and "truthy (err sr)"
    and "\<forall>ls. logs sr = Some ls \<longrightarrow> (\<forall>l\<in>set ls. \<not> startsWith l program_log_marker)"
  shows "fst (sendTransaction stringify net tx payer signers timeout level) =
           Inl (Error (stringify (err sr)))"
proof -
  have run: "fst (sendTransaction stringify net tx payer signers timeout level) =
          Inl (diagnose stringify (Some sr))"
    using sendTransaction_watched[OF assms(1), of stringify] assms(2) by simp
  show ?thesis
  proof (cases "logs sr")
    case None
    then show ?thesis using run assms(3) by (simp add: diagnose_def)
  next
    case (Some ls)
    with assms(4) have "scan_logs ls (int (length ls) - 1) = None"
      by (simp add: scan_logs_none)
    then show ?thesis using run assms(3) Some by (simp add: diagnose_def)
  qed
qed

theorem truthy_dry_run_error_is_serialized_witness:
  "truthy (ErrObject ''InstructionError'')
   \<and> \<not> startsWith ''Program Token invoke [1]'' program_log_marker
   \<and> fst (sendTransaction sample_stringify
        (sample_network (Rejected ''AccountNotFound'')
           (Inr (Some \<lparr>err = ErrObject ''InstructionError'',
                         logs = Some [''Program Token invoke [1]'']\<rparr>)))
        sample_transaction sample_payer [] 30000 confirmed) =
      Inl (Error ''InstructionError'')"
proof -
  let ?sr = "\<lparr>err = ErrObject ''InstructionError'',
               logs = Some [''Program Token invoke [1]'']\<rparr>"
  let ?net = "sample_network (Rejected ''AccountNotFound'') (Inr (Some ?sr))"
  have h1: "watcher_outcome ?net sample_transaction sample_payer [] 30000 confirmed =
              Some (''sig'', sample_signed, Rejected ''AccountNotFound'')"
    by (simp add: run_defs)
  have h2: "simulate_result ?net sample_signed = Some ?sr"
    by (simp add: simulate_result_def sample_network_def)
  have h3: "truthy (err ?sr)" by simp
  have h4: "\<forall>ls. logs ?sr = Some ls \<longrightarrow> (\<forall>l\<in>set ls. \<not> startsWith l program_log_marker)"
    by (simp add: startsWith_def program_log_marker_def)
  show ?thesis
    using truthy_dry_run_error_is_serialized[OF h1 h2 h3 h4, of sample_stringify]
    by (simp add: startsWith_def program_log_marker_def)
qed

text \<open>
  A dry-run whose error is the empty string, which is not \<^verbatim>\<open>null\<close>, and whose only
  log line does not start with the marker: the caller gets \<open>Transaction failed\<close>, not the
  serialized error (two double quotes).
\<close>

theorem non_null_dry_run_error_counterexample:
  "err \<lparr>err = ErrString '''', logs = Some [''Program Token invoke [1]'']\<rparr> \<noteq> ErrNull
   \<and> \<not> startsWith ''Program Token invoke [1]'' program_log_marker
   \<and> sample_stringify (ErrString '''') = [CHR 0x22, CHR 0x22]
   \<and> fst (sendTransaction sample_stringify
        (sample_network (Rejected ''AccountNotFound'')
           (Inr (Some \<lparr>err = ErrString '''', logs = Some [''Program Token invoke [1]'']\<rparr>)))
        sample_transaction sample_payer [] 30000 confirmed) =
      Inl (Error ''Transaction failed'')
   \<and> fst (sendTransaction sample_stringify
        (sample_network (Rejected ''AccountNotFound'')
           (Inr (Some \<lparr>err = ErrString '''', logs = Some [''Program Token invoke [1]'']\<rparr>)))
        sample_transaction sample_payer [] 30000 confirmed) \<noteq>
      Inl (Error (sample_stringify (ErrString '''')))"
proof -
  let ?sr = "\<lparr>err = ErrString '''', logs = Some [''Program Token invoke [1]'']\<rparr>"
  let ?net = "sample_network (Rejected ''AccountNotFound'') (Inr (Some ?sr))"
  have h1: "watcher_outcome ?net sample_transaction sample_payer [] 30000 confirmed =
              Some (''sig'', sample_signed, Rejected ''AccountNotFound'')"
    by (simp add: run_defs)
  have h2: "simulate_result ?net sample_signed = Some ?sr"
    by (simp add: simulate_result_def sample_network_def)
  have r: "fst (sendTransaction sample_stringify ?net sample_transaction sample_payer [] 30000
             confirmed) = Inl (Error ''Transaction failed'')"
    using sendTransaction_watched[OF h1, of sample_stringify] h2 by (simp add: diagnose_def)
  have m: "\<not> startsWith ''Program Token invoke [1]'' program_log_marker"
    by (simp add: startsWith_def program_log_marker_def)
  have ne: "(Inl (Error ''Transaction failed'') :: error + txid) \<noteq>
              Inl (Error (sample_stringify (ErrString '''')))"
    by simp
  show ?thesis unfolding r using m ne by simp
qed

text \<open>
  C7. Claimed: when the Watcher reports a rejection and the diagnosis is inconclusive,
  the raw rejection's message still reaches the caller. Instead the caller receives the
  generic error \<open>Transaction failed\<close>, which differs from the time-out error and is the
  same whatever the rejection was: the raw rejection is dropped.
\<close>

theorem inconclusive_diagnosis_gives_generic_error:
  assumes "watcher_outcome net tx payer signers timeout level =
             Some (txid, transaction, Rejected e)"
    and "inconclusive (simulate_result net transaction)"
  shows "fst (sendTransaction stringify net tx payer signers timeout level) =
           Inl (Error ''Transaction failed'')
    \<and> fst (sendTransaction stringify net tx payer signers timeout level) \<noteq>
           Inl (Error ''Timed out awaiting confirmation on transaction'')"
  using sendTransaction_watched[OF assms(1), of stringify] assms(2)
  by (auto simp: inconclusive_def diagnose_def split: option.splits)

theorem inconclusive_diagnosis_gives_generic_error_witness:
  "inconclusive (simulate_result
       (sample_network (Rejected ''AccountNotFound'')
          (Inr (Some \<lparr>err = ErrNull, logs = Some [''Program log: Instruction: Deposit'']\<rparr>)))
       sample_signed)
   \<and> fst (sendTransaction sample_stringify
        (sample_network (Rejected ''AccountNotFound'')
           (Inr (Some \<lparr>err = ErrNull, logs = Some [''Program log: Instruction: Deposit'']\<rparr>)))
        sample_transaction sample_payer [] 30000 confirmed) =
      Inl (Error ''Transaction failed'')"
proof -
  let ?net = "sample_network (Rejected ''AccountNotFound'')
     (Inr (Some \<lparr>err = ErrNull, logs = Some [''Program log: Instruction: Deposit'']\<rparr>))"
  have h1: "watcher_outcome ?net sample_transaction sample_payer [] 30000 confirmed =
              Some (''sig'', sample_signed, Rejected ''AccountNotFound'')"
    by (simp add: run_defs)
  have h2: "inconclusive (simulate_result ?net sample_signed)"
    by (simp add: inconclusive_def simulate_result_def sample_network_def)
  show ?thesis
    using inconclusive_diagnosis_gives_generic_error[OF h1 h2, of sample_stringify] h2 by simp
qed

text \<open>
  The Watcher rejects with \<open>AccountNotFound\<close> and the dry-run cannot be made: the error
  the caller gets is \<open>Transaction failed\<close>, in which \<open>AccountNotFound\<close> does not occur.
\<close>

theorem rejection_message_lost_counterexample:
  "watcher_outcome
     (sample_network (Rejected ''AccountNotFound'') (Inl (Error ''socket hang up'')))
     sample_transaction sample_payer [] 30000 confirmed =
     Some (''sig'', sample_signed, Rejected ''AccountNotFound'')
   \<and> inconclusive (simulate_result
       (sample_network (Rejected ''AccountNotFound'') (Inl (Error ''socket hang up'')))
       sample_signed)
   \<and> fst (sendTransaction sample_stringify
        (sample_network (Rejected ''AccountNotFound'') (Inl (Error ''socket hang up'')))
        sample_transaction sample_payer [] 30000 confirmed) =
      Inl (Error ''Transaction failed'')
   \<and> \<not> carries (fst (sendTransaction sample_stringify
        (sample_network (Rejected ''AccountNotFound'') (Inl (Error ''socket hang up'')))
        sample_transaction sample_payer [] 30000 confirmed)) ''AccountNotFound''"
proof -
  let ?net = "sample_network (Rejected ''AccountNotFound'')
                (Inl (Error ''socket hang up''))"
  have h1: "watcher_outcome ?net sample_transaction sample_payer [] 30000 confirmed =
              Some (''sig'', sample_signed, Rejected ''AccountNotFound'')"
    by (simp add: run_defs)
  have h2: "simulate_result ?net sample_signed = None"
    by (simp add: simulate_result_def sample_network_def)
  have r: "fst (sendTransaction sample_stringify ?net sample_transaction sample_payer [] 30000
             confirmed) = Inl (Error ''Transaction failed'')"
    using sendTransaction_watched[OF h1, of sample_stringify] h2 by (simp add: diagnose_def)
  have c: "\<not> carries (Inl (Error ''Transaction failed'') :: error + txid) ''AccountNotFound''"
    by (simp add: carries_def startsWith_def)
  show ?thesis unfolding r h1 h2 using c by (simp add: inconclusive_def)
qed

section \<open>The submission: properties\<close>

text \<open>
  C2. Claimed: on a Watcher timeout the dry-run is made on the signed transaction and the
  time-out error is enriched by what it finds. Instead, on a Watcher timeout the
  submission sets the done flag and fails with exactly \<open>Timed out awaiting confirmation on
  transaction\<close>; no dry-run is requested.
\<close>

theorem timeout_fails_without_diagnosis:
  assumes "watcher_outcome net tx payer signers timeout level = Some (txid, transaction, Timeout)"
  shows "fst (sendTransaction stringify net tx payer signers timeout level) =
           Inl (Error ''Timed out awaiting confirmation on transaction'')
    \<and> done_flag (snd (sendTransaction stringify net tx payer signers timeout level))
    \<and> filter is_simulate
         (calls (snd (sendTransaction stringify net tx payer signers timeout level))) = []"
  using sendTransaction_watched[OF assms, of stringify] watched_done[OF assms, of stringify]
    timeout_no_simulate[OF assms, of stringify]
  by simp

theorem timeout_fails_without_diagnosis_witness:
  "watcher_outcome (sample_network Timeout (Inl (Error ''socket hang up'')))
     sample_transaction sample_payer [] 30000 confirmed = Some (''sig'', sample_signed, Timeout)
   \<and> fst (sendTransaction sample_stringify (sample_network Timeout (Inl (Error ''socket hang up'')))
        sample_transaction sample_payer [] 30000 confirmed) =
      Inl (Error ''Timed out awaiting confirmation on transaction'')
   \<and> done_flag (snd (sendTransaction sample_stringify
        (sample_network Timeout (Inl (Error ''socket hang up'')))
        sample_transaction sample_payer [] 30000 confirmed))
   \<and> filter is_simulate (calls (snd (sendTransaction sample_stringify
        (sample_network Timeout (Inl (Error ''socket hang up'')))
        sample_transaction sample_payer [] 30000 confirmed))) = []"
proof -
  let ?net = "sample_network Timeout (Inl (Error ''socket hang up''))"
  have h: "watcher_outcome ?net sample_transaction sample_payer [] 30000 confirmed =
             Some (''sig'', sample_signed, Timeout)"
    by (simp add: run_defs)
  show ?thesis
    using timeout_fails_without_diagnosis[OF h, of sample_stringify] h by simp
qed

text \<open>
  A Watcher timeout on a network whose dry-run would report \<open>Program log: insufficient
  funds\<close>: the diagnosis would yield \<open>Transaction failed: insufficient funds\<close>, yet the
  caller gets the bare time-out error and no dry-run is among the requests.
\<close>

theorem timeout_enriched_counterexample:
  "diagnose sample_stringify
     (simulate_result
        (sample_network Timeout
           (Inr (Some \<lparr>err = ErrObject ''InstructionError'',
                         logs = Some [''Program log: insufficient funds'']\<rparr>)))
        sample_signed) = Error ''Transaction failed: insufficient funds''
   \<and> sendTransaction sample_stringify
       (sample_network Timeout
          (Inr (Some \<lparr>err = ErrObject ''InstructionError'',
                        logs = Some [''Program log: insufficient funds'']\<rparr>)))
       sample_transaction sample_payer [] 30000 confirmed =
     (Inl (Error ''Timed out awaiting confirmation on transaction''),
      \<lparr>calls = [GetRecentBlockhash, SendRawTransaction ''deposit'',
                SendRawTransaction ''deposit'', AwaitConfirmation ''sig'' 30000 confirmed,
                SendRawTransaction ''deposit'', SendRawTransaction ''deposit''],
       dropped = [Inl (Error ''fetch failed''), Inl (Error ''fetch failed''),
                  Inl (Error ''fetch failed'')],
       done_flag = True,
       loop = Sleeping ''deposit'' 0 30000\<rparr>)"
  by (simp add: run_defs diagnose_def scan_logs.simps startsWith_def slice_def
        program_log_marker_def)

text \<open>
  C3. Claimed: the done flag is set when the Watcher has reached its outcome, Confirmed,
  Rejected or Timeout, and from then on the loop sends nothing. This holds of the flag: an
  iteration that finds it set sends nothing and leaves it set; every exit of a submission
  that launched the loop, the success and each error, leaves it set; however often the
  loop wakes after the submission has returned or thrown, no request is added. After
  Confirmed and after Timeout the flag is set at the Watcher's report, with nothing in
  between, so that no request follows the report. After Rejected the flag is still unset
  while the dry-run is awaited, and it is set once the loop has had its wake-ups of that
  time.
\<close>

theorem flag_stops_loop:
  "(\<forall>s now. done_flag s \<longrightarrow>
        calls (loop_iteration net now s) = calls s \<and> done_flag (loop_iteration net now s))
   \<and> (loop (snd (sendTransaction stringify net tx payer signers timeout level)) \<noteq> NotStarted
        \<longrightarrow> done_flag (snd (sendTransaction stringify net tx payer signers timeout level)))
   \<and> (\<forall>later.
        calls (wake net later (snd (sendTransaction stringify net tx payer signers timeout level)))
        = calls (snd (sendTransaction stringify net tx payer signers timeout level)))
   \<and> (\<forall>txid transaction w s6.
        watcher_outcome net tx payer signers timeout level = Some (txid, transaction, w)
          \<and> state_at_outcome net tx payer signers timeout level = Some s6 \<longrightarrow>
        \<not> done_flag s6
        \<and> (w = Confirmed \<or> w = Timeout \<longrightarrow>
             snd (sendTransaction stringify net tx payer signers timeout level) =
               s6\<lparr>done_flag := True\<rparr>
             \<and> (\<forall>later.
                  calls (wake net later
                    (snd (sendTransaction stringify net tx payer signers timeout level)))
                  = calls s6))
        \<and> (\<forall>e. w = Rejected e \<longrightarrow>
             \<not> done_flag (wake net (wakeups_simulating net)
                            (request (SimulateTransaction transaction) s6))
             \<and> snd (sendTransaction stringify net tx payer signers timeout level) =
                 (wake net (wakeups_simulating net)
                    (request (SimulateTransaction transaction) s6))\<lparr>done_flag := True\<rparr>))"
proof -
  let ?s = "snd (sendTransaction stringify net tx payer signers timeout level)"
  have flag: "done_flag ?s \<or> loop ?s = NotStarted"
    by (rule sendTransaction_done)
  have later: "calls (wake net later ?s) = calls ?s" for later
    using flag wake_done[of ?s net later] wake_NotStarted[of ?s net later] by auto
  have iter: "calls (loop_iteration net now s) = calls s \<and> done_flag (loop_iteration net now s)"
    if "done_flag s" for s now
    using that by (simp add: loop_iteration_done)
  have launched: "loop ?s \<noteq> NotStarted \<longrightarrow> done_flag ?s"
    using flag by blast
  have outcome: "\<not> done_flag s6
        \<and> (w = Confirmed \<or> w = Timeout \<longrightarrow>
             ?s = s6\<lparr>done_flag := True\<rparr> \<and> (\<forall>later. calls (wake net later ?s) = calls s6))
        \<and> (\<forall>e. w = Rejected e \<longrightarrow>
             \<not> done_flag (wake net (wakeups_simulating net)
                            (request (SimulateTransaction transaction) s6))
             \<and> ?s = (wake net (wakeups_simulating net)
                    (request (SimulateTransaction transaction) s6))\<lparr>done_flag := True\<rparr>)"
    if w: "watcher_outcome net tx payer signers timeout level = Some (txid, transaction, w)"
      and s6: "state_at_outcome net tx payer signers timeout level = Some s6"
    for txid transaction w s6
  proof -
    have unset: "\<not> done_flag s6" using s6 by (rule state_at_outcome_flag)
    have after: "?s = (case w of
        Rejected e \<Rightarrow>
          (wake net (wakeups_simulating net) (request (SimulateTransaction transaction) s6))
            \<lparr>done_flag := True\<rparr>
      | _ \<Rightarrow> s6\<lparr>done_flag := True\<rparr>)"
      using w s6 by (rule sendTransaction_after_outcome)
    have quiet: "?s = s6\<lparr>done_flag := True\<rparr> \<and> (\<forall>later. calls (wake net later ?s) = calls s6)"
      if "w = Confirmed \<or> w = Timeout"
    proof -
      from that after have eq: "?s = s6\<lparr>done_flag := True\<rparr>" by auto
      then have "calls ?s = calls s6" by simp
      then show ?thesis using eq later by simp
    qed
    have busy: "\<not> done_flag (wake net (wakeups_simulating net)
                            (request (SimulateTransaction transaction) s6))
             \<and> ?s = (wake net (wakeups_simulating net)
                    (request (SimulateTransaction transaction) s6))\<lparr>done_flag := True\<rparr>"
      if "w = Rejected e" for e
      using that after unset by (simp add: wake_flag request_def)
    show ?thesis using unset quiet busy by blast
  qed
  show ?thesis
    apply (intro conjI allI impI)
    subgoal for s now using iter by blast
    subgoal for s now using iter by blast
    subgoal using launched by blast
    subgoal for later using later by blast
    subgoal for txid transaction w s6 using outcome by blast
    subgoal for txid transaction w s6 using outcome by blast
    subgoal for txid transaction w s6 later using outcome by blast
    subgoal for txid transaction w s6 e using outcome by blast
    subgoal for txid transaction w s6 e using outcome by blast
    done
qed

theorem flag_stops_loop_witness:
  "state_at_outcome (sample_network Confirmed (Inl TypeError)) sample_transaction sample_payer []
     30000 confirmed =
     Some \<lparr>calls = [GetRecentBlockhash, SendRawTransaction ''deposit'',
                    SendRawTransaction ''deposit'', AwaitConfirmation ''sig'' 30000 confirmed,
                    SendRawTransaction ''deposit'', SendRawTransaction ''deposit''],
           dropped = [Inl (Error ''fetch failed''), Inl (Error ''fetch failed''),
                      Inl (Error ''fetch failed'')],
           done_flag = False,
           loop = Sleeping ''deposit'' 0 30000\<rparr>
   \<and> snd (sendTransaction sample_stringify (sample_network Confirmed (Inl TypeError))
        sample_transaction sample_payer [] 30000 confirmed) =
     \<lparr>calls = [GetRecentBlockhash, SendRawTransaction ''deposit'',
               SendRawTransaction ''deposit'', AwaitConfirmation ''sig'' 30000 confirmed,
               SendRawTransaction ''deposit'', SendRawTransaction ''deposit''],
      dropped = [Inl (Error ''fetch failed''), Inl (Error ''fetch failed''),
                 Inl (Error ''fetch failed'')],
      done_flag = True,
      loop = Sleeping ''deposit'' 0 30000\<rparr>
   \<and> calls (loop_iteration (sample_network Confirmed (Inl TypeError)) 920
        (snd (sendTransaction sample_stringify (sample_network Confirmed (Inl TypeError))
           sample_transaction sample_payer [] 30000 confirmed)))
     = calls (snd (sendTransaction sample_stringify (sample_network Confirmed (Inl TypeError))
           sample_transaction sample_payer [] 30000 confirmed))
   \<and> calls (wake (sample_network Confirmed (Inl TypeError)) [920, 1220]
        (snd (sendTransaction sample_stringify (sample_network Confirmed (Inl TypeError))
           sample_transaction sample_payer [] 30000 confirmed)))
     = [GetRecentBlockhash, SendRawTransaction ''deposit'', SendRawTransaction ''deposit'',
        AwaitConfirmation ''sig'' 30000 confirmed, SendRawTransaction ''deposit'',
        SendRawTransaction ''deposit'']
   \<and> done_flag (snd (sendTransaction sample_stringify
        (sample_network (Rejected ''AccountNotFound'') (Inl (Error ''socket hang up'')))
        sample_transaction sample_payer [] 30000 confirmed))"
proof -
  let ?net = "sample_network Confirmed (Inl TypeError)"
  let ?rej = "sample_network (Rejected ''AccountNotFound'') (Inl (Error ''socket hang up''))"
  let ?s6 = "\<lparr>calls = [GetRecentBlockhash, SendRawTransaction ''deposit'',
                    SendRawTransaction ''deposit'', AwaitConfirmation ''sig'' 30000 confirmed,
                    SendRawTransaction ''deposit'', SendRawTransaction ''deposit''],
           dropped = [Inl (Error ''fetch failed''), Inl (Error ''fetch failed''),
                      Inl (Error ''fetch failed'')],
           done_flag = False,
           loop = Sleeping ''deposit'' 0 30000\<rparr>"
  let ?s = "snd (sendTransaction sample_stringify ?net sample_transaction sample_payer []
              30000 confirmed)"
  let ?r = "snd (sendTransaction sample_stringify ?rej sample_transaction sample_payer []
              30000 confirmed)"
  have o: "watcher_outcome ?net sample_transaction sample_payer [] 30000 confirmed =
             Some (''sig'', sample_signed, Confirmed)"
    by (simp add: run_defs)
  have a: "state_at_outcome ?net sample_transaction sample_payer [] 30000 confirmed = Some ?s6"
    by (simp add: state_at_outcome_def run_defs)
  have o': "watcher_outcome ?rej sample_transaction sample_payer [] 30000 confirmed =
             Some (''sig'', sample_signed, Rejected ''AccountNotFound'')"
    by (simp add: run_defs)
  have a': "state_at_outcome ?rej sample_transaction sample_payer [] 30000 confirmed = Some ?s6"
    by (simp add: state_at_outcome_def run_defs)
  note t = flag_stops_loop[of ?net sample_stringify sample_transaction sample_payer "[]" 30000
      confirmed]
  note t' = flag_stops_loop[of ?rej sample_stringify sample_transaction sample_payer "[]" 30000
      confirmed]
  from t o a have e: "?s = ?s6\<lparr>done_flag := True\<rparr>"
    and w: "calls (wake ?net [920, 1220] ?s) = calls ?s6"
    by blast+
  from e have d: "done_flag ?s" by simp
  from t d have i: "calls (loop_iteration ?net 920 ?s) = calls ?s" by blast
  from t' o' a' have "?r = (wake ?rej (wakeups_simulating ?rej)
      (request (SimulateTransaction sample_signed) ?s6))\<lparr>done_flag := True\<rparr>"
    by blast
  then have d': "done_flag ?r" by simp
  show ?thesis using a e i w d' by simp
qed


text \<open>
  The Watcher rejects and the dry-run is awaited. When the Watcher reports, four sends have
  been made and the flag is unset; when the submission throws, a fifth send has followed
  the request for the dry-run.
\<close>

theorem send_after_rejection_counterexample:
  "watcher_outcome
     (sample_network (Rejected ''AccountNotFound'') (Inl (Error ''socket hang up'')))
     sample_transaction sample_payer [] 30000 confirmed =
     Some (''sig'', sample_signed, Rejected ''AccountNotFound'')
   \<and> state_at_outcome
       (sample_network (Rejected ''AccountNotFound'') (Inl (Error ''socket hang up'')))
       sample_transaction sample_payer [] 30000 confirmed =
     Some \<lparr>calls = [GetRecentBlockhash, SendRawTransaction ''deposit'',
                    SendRawTransaction ''deposit'', AwaitConfirmation ''sig'' 30000 confirmed,
                    SendRawTransaction ''deposit'', SendRawTransaction ''deposit''],
           dropped = [Inl (Error ''fetch failed''), Inl (Error ''fetch failed''),
                      Inl (Error ''fetch failed'')],
           done_flag = False,
           loop = Sleeping ''deposit'' 0 30000\<rparr>
   \<and> calls (snd (sendTransaction sample_stringify
       (sample_network (Rejected ''AccountNotFound'') (Inl (Error ''socket hang up'')))
       sample_transaction sample_payer [] 30000 confirmed))
     = [GetRecentBlockhash, SendRawTransaction ''deposit'', SendRawTransaction ''deposit'',
        AwaitConfirmation ''sig'' 30000 confirmed, SendRawTransaction ''deposit'',
        SendRawTransaction ''deposit'', SimulateTransaction sample_signed,
        SendRawTransaction ''deposit'']
   \<and> length (filter is_send (calls (snd (sendTransaction sample_stringify
       (sample_network (Rejected ''AccountNotFound'') (Inl (Error ''socket hang up'')))
       sample_transaction sample_payer [] 30000 confirmed)))) = 5"
proof -
  let ?rej = "sample_network (Rejected ''AccountNotFound'') (Inl (Error ''socket hang up''))"
  have o: "watcher_outcome ?rej sample_transaction sample_payer [] 30000 confirmed =
             Some (''sig'', sample_signed, Rejected ''AccountNotFound'')"
    by (simp add: run_defs)
  have a: "state_at_outcome ?rej sample_transaction sample_payer [] 30000 confirmed =
     Some \<lparr>calls = [GetRecentBlockhash, SendRawTransaction ''deposit'',
                    SendRawTransaction ''deposit'', AwaitConfirmation ''sig'' 30000 confirmed,
                    SendRawTransaction ''deposit'', SendRawTransaction ''deposit''],
           dropped = [Inl (Error ''fetch failed''), Inl (Error ''fetch failed''),
                      Inl (Error ''fetch failed'')],
           done_flag = False,
           loop = Sleeping ''deposit'' 0 30000\<rparr>"
    by (simp add: state_at_outcome_def run_defs)
  have c: "calls (snd (sendTransaction sample_stringify ?rej sample_transaction sample_payer []
             30000 confirmed))
     = [GetRecentBlockhash, SendRawTransaction ''deposit'', SendRawTransaction ''deposit'',
        AwaitConfirmation ''sig'' 30000 confirmed, SendRawTransaction ''deposit'',
        SendRawTransaction ''deposit'', SimulateTransaction sample_signed,
        SendRawTransaction ''deposit'']"
    by (simp add: run_defs)
  show ?thesis unfolding o a c by simp
qed


text \<open>
  C8. Claimed: a failing send of the loop neither ends the loop nor fails the submission.
  In the sample run the first send is accepted, the Watcher confirms and the three sends of
  the loop fail. Their rejections stay unhandled. A host that goes on after an unhandled
  rejection returns the identifier; under a host that throws on one, the process does not
  survive the first failing send of the loop.
\<close>

theorem failed_loop_send_is_unhandled:
  "unhandled_rejections (snd (sendTransaction sample_stringify
       (sample_network Confirmed (Inl TypeError)) sample_transaction sample_payer [] 30000
       confirmed)) =
     [Error ''fetch failed'', Error ''fetch failed'', Error ''fetch failed'']
   \<and> \<not> process_survives ThrowOnUnhandled (snd (sendTransaction sample_stringify
       (sample_network Confirmed (Inl TypeError)) sample_transaction sample_payer [] 30000
       confirmed))
   \<and> process_survives WarnOnUnhandled (snd (sendTransaction sample_stringify
       (sample_network Confirmed (Inl TypeError)) sample_transaction sample_payer [] 30000
       confirmed))
   \<and> fst (sendTransaction sample_stringify
       (sample_network Confirmed (Inl TypeError)) sample_transaction sample_payer [] 30000
       confirmed) = Inr ''sig''"
proof -
  let ?run = "sendTransaction sample_stringify (sample_network Confirmed (Inl TypeError))
                sample_transaction sample_payer [] 30000 confirmed"
  have d: "dropped (snd ?run) =
      [Inl (Error ''fetch failed''), Inl (Error ''fetch failed''), Inl (Error ''fetch failed'')]"
    by (simp add: run_defs)
  have r: "fst ?run = Inr ''sig''"
    by (simp add: run_defs)
  have u: "unhandled_rejections (snd ?run) =
      [Error ''fetch failed'', Error ''fetch failed'', Error ''fetch failed'']"
    by (simp add: unhandled_rejections_def d)
  show ?thesis unfolding u r by (simp add: process_survives_def u)
qed

section \<open>The batch: properties\<close>

text \<open>
  C1. Claimed: the batch returns one result per entry, so that a single failing entry
  shows as one failure among the identifiers of the others. Instead the batch is all or
  nothing. Every entry is submitted by its own \<^verbatim>\<open>sendTransaction\<close>, whatever happens to
  the others. When every entry confirms, the caller gets the identifiers, one per entry, in
  the order of the input. When exactly one entry fails and the others confirm, the whole
  call fails with the error of that entry and the caller gets no identifier.
\<close>

theorem batch_is_all_or_nothing:
  "snd (sendTransactions stringify entries payer signers timeout level) =
     map (\<lambda>(net, tx). snd (sendTransaction stringify net tx payer signers timeout level)) entries
   \<and> (\<forall>ids. entry_results stringify entries payer signers timeout level = map Inr ids \<longrightarrow>
         fst (sendTransactions stringify entries payer signers timeout level) = Inr ids)
   \<and> (\<forall>k e. k < length entries
           \<and> entry_results stringify entries payer signers timeout level ! k = Inl e
           \<and> (\<forall>i<length entries. i \<noteq> k \<longrightarrow>
                  \<not> isl (entry_results stringify entries payer signers timeout level ! i)) \<longrightarrow>
         fst (sendTransactions stringify entries payer signers timeout level) = Inl e
         \<and> delivered_identifiers
             (fst (sendTransactions stringify entries payer signers timeout level)) = [])"
proof -
  let ?ps = "map (\<lambda>(net, tx).
        (settles_at net, fst (sendTransaction stringify net tx payer signers timeout level)))
       entries"
  let ?rs = "entry_results stringify entries payer signers timeout level"
  have rs: "map snd ?ps = ?rs" by (rule promises_results)
  have len: "length ?ps = length entries" by simp
  have nth: "snd (?ps ! i) = ?rs ! i" if "i < length entries" for i
    using that by (simp add: entry_results_def case_prod_unfold)
  have all: "fst (sendTransactions stringify entries payer signers timeout level) = Inr ids"
    if "?rs = map Inr ids" for ids
  proof -
    from that rs have m: "map snd ?ps = map Inr ids" by simp
    have "\<forall>p\<in>set ?ps. \<not> isl (snd p)"
    proof
      fix p assume "p \<in> set ?ps"
      then have "snd p \<in> set (map snd ?ps)" by (simp only: set_map) (rule imageI)
      then have "snd p \<in> set (map Inr ids)" by (simp only: m)
      then show "\<not> isl (snd p)" by auto
    qed
    then have "promise_all ?ps = Inr (map (projr \<circ> snd) ?ps)" by (rule promise_all_fulfilled)
    also have "map (projr \<circ> snd) ?ps = map projr (map snd ?ps)" by simp
    also have "\<dots> = ids" unfolding m by (simp add: comp_def)
    finally show ?thesis by (simp only: sendTransactions_promises)
  qed
  have one: "fst (sendTransactions stringify entries payer signers timeout level) = Inl e"
    if "k < length entries" "?rs ! k = Inl e"
      "\<forall>i<length entries. i \<noteq> k \<longrightarrow> \<not> isl (?rs ! i)" for k e
  proof -
    have "promise_all ?ps = Inl e"
    proof (rule promise_all_single_rejection[of k])
      show "k < length ?ps" using that(1) by simp
      show "snd (?ps ! k) = Inl e" using nth[OF that(1)] that(2) by simp
      show "\<forall>i<length ?ps. i \<noteq> k \<longrightarrow> \<not> isl (snd (?ps ! i))"
        using that(3) nth by simp
    qed
    then show ?thesis by (simp only: sendTransactions_promises)
  qed
  show ?thesis
    using all one sendTransactions_states[of stringify entries payer signers timeout level]
    by (auto simp: delivered_identifiers_def)
qed

theorem batch_is_all_or_nothing_witness:
  "entry_results sample_stringify
     [(sample_network Confirmed (Inl (Error ''socket hang up'')), sample_transaction),
      (sample_network (Rejected ''AccountNotFound'') (Inl (Error ''socket hang up'')),
       sample_transaction)]
     sample_payer [] 30000 confirmed ! 1 = Inl (Error ''Transaction failed'')
   \<and> \<not> isl (entry_results sample_stringify
     [(sample_network Confirmed (Inl (Error ''socket hang up'')), sample_transaction),
      (sample_network (Rejected ''AccountNotFound'') (Inl (Error ''socket hang up'')),
       sample_transaction)]
     sample_payer [] 30000 confirmed ! 0)
   \<and> fst (sendTransactions sample_stringify
     [(sample_network Confirmed (Inl (Error ''socket hang up'')), sample_transaction),
      (sample_network (Rejected ''AccountNotFound'') (Inl (Error ''socket hang up'')),
       sample_transaction)]
     sample_payer [] 30000 confirmed) = Inl (Error ''Transaction failed'')
   \<and> entry_results sample_stringify
     [(sample_network Confirmed (Inl (Error ''socket hang up'')), sample_transaction),
      (sample_network Confirmed (Inl (Error ''socket hang up'')), sample_transaction)]
     sample_payer [] 30000 confirmed = map Inr [''sig'', ''sig'']
   \<and> fst (sendTransactions sample_stringify
     [(sample_network Confirmed (Inl (Error ''socket hang up'')), sample_transaction),
      (sample_network Confirmed (Inl (Error ''socket hang up'')), sample_transaction)]
     sample_payer [] 30000 confirmed) = Inr [''sig'', ''sig'']"
proof -
  let ?a = "sample_network Confirmed (Inl (Error ''socket hang up''))"
  let ?b = "sample_network (Rejected ''AccountNotFound'')
              (Inl (Error ''socket hang up''))"
  let ?mixed = "[(?a, sample_transaction), (?b, sample_transaction)]"
  let ?good = "[(?a, sample_transaction), (?a, sample_transaction)]"
  have a: "fst (sendTransaction sample_stringify ?a sample_transaction sample_payer [] 30000
             confirmed) = Inr ''sig''"
    by (simp add: run_defs)
  have b: "fst (sendTransaction sample_stringify ?b sample_transaction sample_payer [] 30000
             confirmed) = Inl (Error ''Transaction failed'')"
    by (simp add: run_defs diagnose_def)
  have mixed: "entry_results sample_stringify ?mixed sample_payer [] 30000 confirmed =
      [Inr ''sig'', Inl (Error ''Transaction failed'')]"
    by (simp add: entry_results_def a b)
  have good: "entry_results sample_stringify ?good sample_payer [] 30000 confirmed =
      map Inr [''sig'', ''sig'']"
    by (simp add: entry_results_def a)
  have k: "(1::nat) < length ?mixed
     \<and> entry_results sample_stringify ?mixed sample_payer [] 30000 confirmed ! 1 =
         Inl (Error ''Transaction failed'')
     \<and> (\<forall>i<length ?mixed. i \<noteq> 1 \<longrightarrow>
           \<not> isl (entry_results sample_stringify ?mixed sample_payer [] 30000 confirmed ! i))"
    unfolding mixed by (simp add: less_Suc_eq)
  from batch_is_all_or_nothing[of sample_stringify ?mixed sample_payer "[]" 30000 confirmed] k
  have m: "fst (sendTransactions sample_stringify ?mixed sample_payer [] 30000 confirmed) =
      Inl (Error ''Transaction failed'')"
    by blast
  from batch_is_all_or_nothing[of sample_stringify ?good sample_payer "[]" 30000 confirmed] good
  have g: "fst (sendTransactions sample_stringify ?good sample_payer [] 30000 confirmed) =
      Inr [''sig'', ''sig'']"
    by blast
  show ?thesis using m g good unfolding mixed by simp
qed

text \<open>
  A batch of two: the first entry confirms, the second is rejected and its dry-run cannot
  be made. The results of the entries are an identifier and a failure; the caller gets
  the failure alone, where the claim has one identifier delivered.
\<close>

theorem batch_per_entry_results_counterexample:
  "entry_results sample_stringify
     [(sample_network Confirmed (Inl (Error ''socket hang up'')), sample_transaction),
      (sample_network (Rejected ''AccountNotFound'') (Inl (Error ''socket hang up'')),
       sample_transaction)]
     sample_payer [] 30000 confirmed = [Inr ''sig'', Inl (Error ''Transaction failed'')]
   \<and> fst (sendTransactions sample_stringify
     [(sample_network Confirmed (Inl (Error ''socket hang up'')), sample_transaction),
      (sample_network (Rejected ''AccountNotFound'') (Inl (Error ''socket hang up'')),
       sample_transaction)]
     sample_payer [] 30000 confirmed) = Inl (Error ''Transaction failed'')
   \<and> length (delivered_identifiers (fst (sendTransactions sample_stringify
     [(sample_network Confirmed (Inl (Error ''socket hang up'')), sample_transaction),
      (sample_network (Rejected ''AccountNotFound'') (Inl (Error ''socket hang up'')),
       sample_transaction)]
     sample_payer [] 30000 confirmed))) \<noteq> 2 - 1"
proof -
  let ?a = "sample_network Confirmed (Inl (Error ''socket hang up''))"
  let ?b = "sample_network (Rejected ''AccountNotFound'')
              (Inl (Error ''socket hang up''))"
  have a: "fst (sendTransaction sample_stringify ?a sample_transaction sample_payer [] 30000
             confirmed) = Inr ''sig''"
    by (simp add: run_defs)
  have b: "fst (sendTransaction sample_stringify ?b sample_transaction sample_payer [] 30000
             confirmed) = Inl (Error ''Transaction failed'')"
    by (simp add: run_defs diagnose_def)
  have rs: "entry_results sample_stringify [(?a, sample_transaction), (?b, sample_transaction)]
      sample_payer [] 30000 confirmed = [Inr ''sig'', Inl (Error ''Transaction failed'')]"
    by (simp add: entry_results_def a b)
  have r: "fst (sendTransactions sample_stringify [(?a, sample_transaction), (?b, sample_transaction)]
      sample_payer [] 30000 confirmed) = Inl (Error ''Transaction failed'')"
    by (simp add: sendTransactions_promises a b promise_all_def)
  show ?thesis unfolding rs r by (simp add: delivered_identifiers_def)
qed


section \<open>Perp orders: properties\<close>

text \<open>
  C9. \<^verbatim>\<open>placePerpOrder\<close> and \<^verbatim>\<open>cancelPerpOrder\<close> always fail with the error
  \<open>Not Implemented\<close>; they send nothing to the network, change no state and never return
  identifiers.
\<close>

theorem perp_orders_not_implemented:
  "fst (placePerpOrder s) = Inl (Error ''Not Implemented'') \<and> snd (placePerpOrder s) = s
   \<and> fst (cancelPerpOrder s) = Inl (Error ''Not Implemented'') \<and> snd (cancelPerpOrder s) = s
   \<and> (\<forall>ids. fst (placePerpOrder s) \<noteq> Inr ids \<and> fst (cancelPerpOrder s) \<noteq> Inr ids)"
  by (simp add: placePerpOrder_def cancelPerpOrder_def)

section \<open>Reading accounts: properties\<close>

text \<open>
  C10. When the lookup of one of the requested root banks answers \<^verbatim>\<open>null\<close>,
  \<^verbatim>\<open>loadRootBanks\<close> fails and returns no banks at all; when every lookup answers and
  the decoder accepts every buffer, the failure is the \<^verbatim>\<open>TypeError\<close> of reading
  \<^verbatim>\<open>acc.data\<close>. For the same missing account \<^verbatim>\<open>getMerpsGroup\<close> and
  \<^verbatim>\<open>getMerpsAccount\<close> do not fail on the lookup: they hand \<^verbatim>\<open>undefined\<close> to the
  layout decoder and go on with what it returns.
\<close>

theorem loadRootBanks_fails_on_missing_account:
  assumes "pk \<in> set rootBanks" and "getAccountInfo conn pk = Inr None"
  shows "isl (loadRootBanks conn decode rootBanks)
    \<and> ((\<forall>p\<in>set rootBanks. \<not> isl (getAccountInfo conn p)) \<and> (\<forall>b. \<not> isl (decode (Some b))) \<longrightarrow>
         loadRootBanks conn decode rootBanks = Inl TypeError)
    \<and> getMerpsGroup conn decodeGroup pk =
        (case decodeGroup None of
           Inl e \<Rightarrow> Inl e
         | Inr decoded \<Rightarrow> Inr (MerpsGroup pk decoded))
    \<and> getMerpsAccount conn decodeAccount loadOpenOrders pk dexProgramId =
        (case decodeAccount None of
           Inl e \<Rightarrow> Inl e
         | Inr decoded \<Rightarrow> loadOpenOrders (MerpsAccount pk decoded) dexProgramId)"
proof -
  have fails: "isl (loadRootBanks conn decode rootBanks)"
    using assms by (rule loadRootBanks_null)
  have deref: "loadRootBanks conn decode rootBanks = Inl TypeError"
    if "\<forall>p\<in>set rootBanks. \<not> isl (getAccountInfo conn p)" "\<forall>b. \<not> isl (decode (Some b))"
    using assms that by (rule loadRootBanks_TypeError)
  have grp: "getMerpsGroup conn decodeGroup pk =
        (case decodeGroup None of
           Inl e \<Rightarrow> Inl e
         | Inr decoded \<Rightarrow> Inr (MerpsGroup pk decoded))"
    using assms(2) by (simp add: getMerpsGroup_def)
  have acc: "getMerpsAccount conn decodeAccount loadOpenOrders pk dexProgramId =
        (case decodeAccount None of
           Inl e \<Rightarrow> Inl e
         | Inr decoded \<Rightarrow> loadOpenOrders (MerpsAccount pk decoded) dexProgramId)"
    using assms(2) by (simp add: getMerpsAccount_def)
  show ?thesis using fails deref grp acc by blast
qed

text \<open>
  With a decoder that accepts everything, \<^verbatim>\<open>undefined\<close> included, the sample
  connection gives a \<^verbatim>\<open>TypeError\<close> for the banks and a group for the missing key.
\<close>

theorem loadRootBanks_fails_on_missing_account_witness:
  "''missing'' \<in> set [''bank'', ''missing'']
   \<and> getAccountInfo sample_connection ''missing'' = Inr None
   \<and> loadRootBanks sample_connection (\<lambda>b. Inr b) [''bank'', ''missing''] = Inl TypeError
   \<and> getMerpsGroup sample_connection (\<lambda>b. Inr b) ''missing'' = Inr (MerpsGroup ''missing'' None)
   \<and> getMerpsAccount sample_connection (\<lambda>b. Inr b) (\<lambda>a dex. Inr a) ''missing'' ''dex'' =
       Inr (MerpsAccount ''missing'' None)"
proof -
  let ?decode = "\<lambda>b. Inr b :: error + string option"
  let ?load = "\<lambda>(a :: string option MerpsAccount) (dex :: pubkey). Inr a :: error + string option MerpsAccount"
  have h1: "''missing'' \<in> set [''bank'', ''missing'']" by simp
  have h2: "getAccountInfo sample_connection ''missing'' = Inr None"
    by (simp add: sample_connection_def)
  have h3: "(\<forall>p\<in>set [''bank'', ''missing'']. \<not> isl (getAccountInfo sample_connection p))
      \<and> (\<forall>b. \<not> isl (?decode (Some b)))"
    by (simp add: sample_connection_def)
  note t = loadRootBanks_fails_on_missing_account[OF h1 h2,
      where decode = "?decode" and decodeGroup = "?decode" and decodeAccount = "?decode"
        and loadOpenOrders = "?load" and dexProgramId = "''dex''"]
  from t h3 have b: "loadRootBanks sample_connection ?decode [''bank'', ''missing''] = Inl TypeError"
    by blast
  from t have g: "getMerpsGroup sample_connection ?decode ''missing'' =
      Inr (MerpsGroup ''missing'' None)"
    by simp
  from t have a: "getMerpsAccount sample_connection ?decode ?load ''missing'' ''dex'' =
      Inr (MerpsAccount ''missing'' None)"
    by simp
  show ?thesis using h1 h2 b g a by simp
qed

end
